theory Spec2Isabelle
  imports Main "HOL-Library.Char_ord" "HOL-Library.List_Lexorder" "HOL-Library.Sublist"
begin

section \<open>Data model\<close>

text \<open>
  The error values declared at the top of the \<open>things\<close> package. A Go \<open>error\<close> result is an
  \<open>error option\<close> (\<open>None\<close> is \<open>nil\<close>); a result \<open>(T, error)\<close> is \<open>error + T\<close> with
  \<open>Inl\<close> the error.
\<close>

datatype error = ErrConflict | ErrMalformedEntity | ErrUnauthorizedAccess | ErrNotFound

text \<open>
  Modelled from the spec: the struct \<open>things.Thing\<close> (its declaration is not among the sources).
  Section 3 gives a Thing an identifier, an owner identity, a device key, a display name and
  free-form metadata; the code reads and writes the fields \<open>ID\<close>, \<open>Owner\<close> and \<open>Key\<close>.
\<close>

record Thing =
  ID :: string
  Owner :: string
  Key :: string
  Name :: string
  Metadata :: string

text \<open>The zero value \<open>things.Thing{}\<close>: every field is the empty string.\<close>

definition zeroThing :: Thing where
  "zeroThing = \<lparr>Thing.ID = [], Thing.Owner = [], Thing.Key = [], Thing.Name = [], Thing.Metadata = []\<rparr>"

text \<open>
  Modelled from the spec: the struct \<open>things.Channel\<close> (its declaration is not among the
  sources). Section 3 gives a Channel an identifier, an owner identity, a display name, free-form
  metadata and the collection of connected Things; the code reads and writes \<open>ID\<close>, \<open>Owner\<close>
  and the slice \<open>Things\<close>.
\<close>

record Channel =
  ID :: string
  Owner :: string
  Name :: string
  Metadata :: string
  Things :: "Thing list"

text \<open>The zero value \<open>things.Channel{}\<close>.\<close>

definition zeroChannel :: Channel where
  "zeroChannel = \<lparr>Channel.ID = [], Channel.Owner = [], Channel.Name = [], Channel.Metadata = [], Channel.Things = []\<rparr>"

section \<open>Strings, keys and formatting\<close>

text \<open>\<open>strings.HasPrefix\<close> and \<open>strings.HasSuffix\<close>.\<close>

definition HasPrefix :: "string \<Rightarrow> string \<Rightarrow> bool" where
  "HasPrefix s p = prefix p s"

definition HasSuffix :: "string \<Rightarrow> string \<Rightarrow> bool" where
  "HasSuffix s x = suffix x s"

text \<open>
  Modelled from the spec: the helper \<open>key\<close> of \<open>mocks/commons.go\<close> (not among the sources).
  Section 4.4 composes a key as owner + separator + id; \<open>All\<close> looks for the prefix
  \<open>owner-\<close> and \<open>HasThing\<close> for the suffix \<open>-chanID\<close>, so the separator is a hyphen.
\<close>

definition key :: "string \<Rightarrow> string \<Rightarrow> string" where
  "key owner ident = owner @ ''-'' @ ident"

text \<open>
  Go's \<open>int\<close> is a 64-bit two's complement integer: the model computes on \<open>int\<close> and wraps
  the result of every addition.
\<close>

definition wrap64 :: "int \<Rightarrow> int" where
  "wrap64 x = (x + 2 ^ 63) mod 2 ^ 64 - 2 ^ 63"

definition digit :: "nat \<Rightarrow> char" where
  "digit d = char_of (48 + d)"

fun decimal :: "nat \<Rightarrow> string" where
  "decimal n = (if n < 10 then [digit n] else decimal (n div 10) @ [digit (n mod 10)])"

declare decimal.simps [simp del]

definition zeroPad :: "nat \<Rightarrow> string \<Rightarrow> string" where
  "zeroPad w s = replicate (w - length s) (CHR ''0'') @ s"

text \<open>
  \<open>fmt.Sprintf("%012d", i)\<close>: the decimal digits padded with zeros on the left to twelve
  characters; a minus sign counts as one of the twelve.
\<close>

definition Sprintf_012d :: "int \<Rightarrow> string" where
  "Sprintf_012d i =
     (if i < 0 then ''-'' @ zeroPad 11 (decimal (nat (- i))) else zeroPad 12 (decimal (nat i)))"

section \<open>The in-memory thing repository\<close>

text \<open>
  Modelled from the spec: the thing store behind the interface \<open>things.ThingRepository\<close>
  (\<open>mocks/things.go\<close> is not among the sources). Section 4.2 gives the Thing Store and the
  Channel Store the same contract: \<open>Save\<close> returns the id or an error, \<open>Update\<close> fails
  with NotFound if no resource with that (owner, id) pair exists, \<open>One\<close> fails with NotFound
  on a miss. Section 7 names the error of \<open>Save\<close>: Conflict, for an identifier collision on
  save; a \<open>Save\<close> whose (owner, id) key is in use fails with \<open>ErrConflict\<close> and stores
  nothing.
\<close>

record thingRepositoryMock =
  things :: "string \<rightharpoonup> Thing"

definition NewThingRepository :: thingRepositoryMock where
  "NewThingRepository = \<lparr>thingRepositoryMock.things = Map.empty\<rparr>"

definition trm_Save :: "thingRepositoryMock \<Rightarrow> Thing \<Rightarrow> (error + string) \<times> thingRepositoryMock" where
  "trm_Save trm thing =
     (let dbKey = key (Thing.Owner thing) (Thing.ID thing) in
      case thingRepositoryMock.things trm dbKey of
        Some _ \<Rightarrow> (Inl ErrConflict, trm)
      | None \<Rightarrow>
          (Inr (Thing.ID thing),
           trm\<lparr>thingRepositoryMock.things := (thingRepositoryMock.things trm)(dbKey \<mapsto> thing)\<rparr>))"

definition trm_Update :: "thingRepositoryMock \<Rightarrow> Thing \<Rightarrow> error option \<times> thingRepositoryMock" where
  "trm_Update trm thing =
     (let dbKey = key (Thing.Owner thing) (Thing.ID thing) in
      case thingRepositoryMock.things trm dbKey of
        None \<Rightarrow> (Some ErrNotFound, trm)
      | Some _ \<Rightarrow>
          (None, trm\<lparr>thingRepositoryMock.things := (thingRepositoryMock.things trm)(dbKey \<mapsto> thing)\<rparr>))"

definition trm_One :: "thingRepositoryMock \<Rightarrow> string \<Rightarrow> string \<Rightarrow> error + Thing" where
  "trm_One trm owner ident =
     (case thingRepositoryMock.things trm (key owner ident) of
        Some t \<Rightarrow> Inr t
      | None \<Rightarrow> Inl ErrNotFound)"

section \<open>The in-memory channel repository (\<open>mocks/channels.go\<close>)\<close>

text \<open>
  The struct \<open>channelRepositoryMock\<close>. The mutex is left out (every operation is modelled as one
  atomic step). The field \<open>things\<close> of the Go struct is a reference to the thing repository
  that the service holds as well; \<open>crm_Connect\<close>, its only reader, takes the current state of
  that repository as an argument.

  Go ranges over a map in an unspecified order. The two operations that range over
  \<open>crm.channels\<close> take the order of the visit as an argument \<open>ks\<close>, a list of the keys of
  the map; the theorems hold for every such list.
\<close>

record channelRepositoryMock =
  counter :: int
  channels :: "string \<rightharpoonup> Channel"

text \<open>\<open>NewChannelRepository\<close>: an empty map, and Go's zero value for the counter.\<close>

definition NewChannelRepository :: channelRepositoryMock where
  "NewChannelRepository =
     \<lparr>channelRepositoryMock.counter = 0, channelRepositoryMock.channels = Map.empty\<rparr>"

definition crm_Save :: "channelRepositoryMock \<Rightarrow> Channel \<Rightarrow> (error + string) \<times> channelRepositoryMock" where
  "crm_Save crm channel =
     (Inr (Channel.ID channel),
      crm\<lparr>channelRepositoryMock.channels :=
        (channelRepositoryMock.channels crm)(key (Channel.Owner channel) (Channel.ID channel) \<mapsto> channel)\<rparr>)"

definition crm_Update :: "channelRepositoryMock \<Rightarrow> Channel \<Rightarrow> error option \<times> channelRepositoryMock" where
  "crm_Update crm channel =
     (let dbKey = key (Channel.Owner channel) (Channel.ID channel) in
      case channelRepositoryMock.channels crm dbKey of
        None \<Rightarrow> (Some ErrNotFound, crm)
      | Some _ \<Rightarrow>
          (None, crm\<lparr>channelRepositoryMock.channels := (channelRepositoryMock.channels crm)(dbKey \<mapsto> channel)\<rparr>))"

definition crm_One :: "channelRepositoryMock \<Rightarrow> string \<Rightarrow> string \<Rightarrow> error + Channel" where
  "crm_One crm owner ident =
     (case channelRepositoryMock.channels crm (key owner ident) of
        Some c \<Rightarrow> Inr c
      | None \<Rightarrow> Inl ErrNotFound)"

text \<open>
  The loop of \<open>All\<close> over the map: \<open>acc\<close> is the slice \<open>channels\<close> built so far. A key of
  \<open>ks\<close> that the map does not hold is not visited.
\<close>

fun All_range :: "(string \<rightharpoonup> Channel) \<Rightarrow> string \<Rightarrow> string \<Rightarrow> string \<Rightarrow> string list \<Rightarrow> Channel list \<Rightarrow> Channel list" where
  "All_range m pre first last' [] acc = acc"
| "All_range m pre first last' (k # ks) acc =
     (case m k of
        None \<Rightarrow> All_range m pre first last' ks acc
      | Some v \<Rightarrow>
          if HasPrefix k pre \<and> Channel.ID v \<ge> first \<and> Channel.ID v < last'
          then All_range m pre first last' ks (acc @ [v])
          else All_range m pre first last' ks acc)"

text \<open>
  \<open>startID\<close> is a string constant of \<open>mocks/commons.go\<close> (not among the sources); it is a
  parameter here. \<open>sort.SliceStable\<close> with the comparison of the ids is the stable insertion
  sort \<open>sort_key\<close>; Go compares strings byte by byte, as the lexicographic order on
  \<open>char list\<close> does.
\<close>

definition crm_All :: "string \<Rightarrow> string list \<Rightarrow> channelRepositoryMock \<Rightarrow> string \<Rightarrow> int \<Rightarrow> int \<Rightarrow> Channel list" where
  "crm_All startID ks crm owner offset limit =
     (let pre = owner @ ''-'' in
      if offset < 0 \<or> limit \<le> 0 then []
      else
        let first = startID @ Sprintf_012d (wrap64 (offset + 1));
            last' = startID @ Sprintf_012d (wrap64 (wrap64 (offset + limit) + 1))
        in sort_key Channel.ID
             (All_range (channelRepositoryMock.channels crm) pre first last' ks []))"

definition crm_Remove :: "channelRepositoryMock \<Rightarrow> string \<Rightarrow> string \<Rightarrow> error option \<times> channelRepositoryMock" where
  "crm_Remove crm owner ident =
     (None,
      crm\<lparr>channelRepositoryMock.channels := (channelRepositoryMock.channels crm)(key owner ident := None)\<rparr>)"

definition crm_Connect :: "thingRepositoryMock \<Rightarrow> channelRepositoryMock \<Rightarrow> string \<Rightarrow> string \<Rightarrow> string \<Rightarrow> error option \<times> channelRepositoryMock" where
  "crm_Connect trm crm owner chanID thingID =
     (case crm_One crm owner chanID of
        Inl err \<Rightarrow> (Some err, crm)
      | Inr channel \<Rightarrow>
          (case trm_One trm owner thingID of
             Inl err \<Rightarrow> (Some err, crm)
           | Inr thing \<Rightarrow> crm_Update crm (channel\<lparr>Things := Things channel @ [thing]\<rparr>)))"

text \<open>
  The inner loop of \<open>Disconnect\<close>: it appends to \<open>connected\<close> every thing of the channel whose
  id is not \<open>thingID\<close>.
\<close>

fun Disconnect_append :: "string \<Rightarrow> Thing list \<Rightarrow> Thing list \<Rightarrow> Thing list" where
  "Disconnect_append thingID [] connected = connected"
| "Disconnect_append thingID (thing # rest) connected =
     (if Thing.ID thing \<noteq> thingID
      then Disconnect_append thingID rest (connected @ [thing])
      else Disconnect_append thingID rest connected)"

text \<open>
  The outer loop of \<open>Disconnect\<close> over \<open>channel.Things\<close>. At the first thing with the id
  \<open>thingID\<close> it starts from \<open>make([]things.Thing, len(channel.Things)-1)\<close>, a slice of
  that many zero values, runs the inner loop and returns the result of \<open>Update\<close>.
\<close>

fun Disconnect_range :: "channelRepositoryMock \<Rightarrow> Channel \<Rightarrow> string \<Rightarrow> Thing list \<Rightarrow> error option \<times> channelRepositoryMock" where
  "Disconnect_range crm channel thingID [] = (Some ErrNotFound, crm)"
| "Disconnect_range crm channel thingID (t # rest) =
     (if Thing.ID t = thingID
      then
        let connected = Disconnect_append thingID (Things channel)
                          (replicate (length (Things channel) - 1) zeroThing)
        in crm_Update crm (channel\<lparr>Things := connected\<rparr>)
      else Disconnect_range crm channel thingID rest)"

definition crm_Disconnect :: "channelRepositoryMock \<Rightarrow> string \<Rightarrow> string \<Rightarrow> string \<Rightarrow> error option \<times> channelRepositoryMock" where
  "crm_Disconnect crm owner chanID thingID =
     (case crm_One crm owner chanID of
        Inl err \<Rightarrow> (Some err, crm)
      | Inr channel \<Rightarrow> Disconnect_range crm channel thingID (Things channel))"

text \<open>The inner loop of \<open>HasThing\<close> over the things of the channel that was found.\<close>

fun HasThing_things :: "string \<Rightarrow> Thing list \<Rightarrow> error + string" where
  "HasThing_things k [] = Inl ErrNotFound"
| "HasThing_things k (t # rest) =
     (if Thing.Key t = k then Inr (Thing.ID t) else HasThing_things k rest)"

text \<open>
  The outer loop of \<open>HasThing\<close>: the first visited key with the suffix decides (the loop
  breaks after it).
\<close>

fun HasThing_range :: "(string \<rightharpoonup> Channel) \<Rightarrow> string \<Rightarrow> string \<Rightarrow> string list \<Rightarrow> error + string" where
  "HasThing_range m suf k [] = Inl ErrNotFound"
| "HasThing_range m suf k (dbKey # ks) =
     (case m dbKey of
        None \<Rightarrow> HasThing_range m suf k ks
      | Some v \<Rightarrow>
          if HasSuffix dbKey suf then HasThing_things k (Things v)
          else HasThing_range m suf k ks)"

definition crm_HasThing :: "string list \<Rightarrow> channelRepositoryMock \<Rightarrow> string \<Rightarrow> string \<Rightarrow> error + string" where
  "crm_HasThing ks crm chanID k =
     (let suf = ''-'' @ chanID in HasThing_range (channelRepositoryMock.channels crm) suf k ks)"

section \<open>The identity provider\<close>

text \<open>
  Modelled from the spec: the identity provider behind the interface \<open>IdentityProvider\<close> (its
  mock is not among the sources). Section 4.4: identifiers are fixed-width, zero-padded,
  monotonically increasing decimal strings in creation order, and they are 1-based; \<open>All\<close>
  formats the identifier of rank \<open>offset\<close> as \<open>startID\<close> followed by \<open>%012d\<close> of
  \<open>offset+1\<close>.
\<close>

record identityProviderMock =
  counter :: int

definition NewIdentityProvider :: identityProviderMock where
  "NewIdentityProvider = \<lparr>identityProviderMock.counter = 0\<rparr>"

definition idp_ID :: "string \<Rightarrow> identityProviderMock \<Rightarrow> string \<times> identityProviderMock" where
  "idp_ID startID idp =
     (let n = identityProviderMock.counter idp + 1
      in (startID @ Sprintf_012d n, idp\<lparr>identityProviderMock.counter := n\<rparr>))"

section \<open>The service (\<open>thingsService\<close>)\<close>

text \<open>
  The struct \<open>thingsService\<close>. \<open>users\<close> is the external identity oracle: \<open>Identify\<close> maps a
  token to the owner identity, and \<open>None\<close> is any error of the call (a timeout included).
\<close>

record thingsService =
  users :: "string \<rightharpoonup> string"
  things :: thingRepositoryMock
  channels :: channelRepositoryMock
  idp :: identityProviderMock

definition ts_AddThing :: "string \<Rightarrow> thingsService \<Rightarrow> string \<Rightarrow> Thing \<Rightarrow> (error + Thing) \<times> thingsService" where
  "ts_AddThing startID ts token thing =
     (case thingsService.users ts token of
        None \<Rightarrow> (Inl ErrUnauthorizedAccess, ts)
      | Some owner \<Rightarrow>
          let (id1, idp1) = idp_ID startID (thingsService.idp ts);
              (id2, idp2) = idp_ID startID idp1;
              thing' = thing\<lparr>Thing.ID := id1, Thing.Owner := owner, Thing.Key := id2\<rparr>;
              (res, trm') = trm_Save (thingsService.things ts) thing';
              ts' = ts\<lparr>thingsService.idp := idp2, thingsService.things := trm'\<rparr>
          in (case res of
                Inl err \<Rightarrow> (Inl err, ts')
              | Inr _ \<Rightarrow> (Inr thing', ts')))"

definition ts_UpdateThing :: "thingsService \<Rightarrow> string \<Rightarrow> Thing \<Rightarrow> error option \<times> thingsService" where
  "ts_UpdateThing ts token thing =
     (case thingsService.users ts token of
        None \<Rightarrow> (Some ErrUnauthorizedAccess, ts)
      | Some owner \<Rightarrow>
          let (err, trm') = trm_Update (thingsService.things ts) (thing\<lparr>Thing.Owner := owner\<rparr>)
          in (err, ts\<lparr>thingsService.things := trm'\<rparr>))"

definition ts_CreateChannel :: "string \<Rightarrow> thingsService \<Rightarrow> string \<Rightarrow> Channel \<Rightarrow> (error + Channel) \<times> thingsService" where
  "ts_CreateChannel startID ts token channel =
     (case thingsService.users ts token of
        None \<Rightarrow> (Inl ErrUnauthorizedAccess, ts)
      | Some owner \<Rightarrow>
          let (id1, idp1) = idp_ID startID (thingsService.idp ts);
              channel' = channel\<lparr>Channel.ID := id1, Channel.Owner := owner\<rparr>;
              (res, crm') = crm_Save (thingsService.channels ts) channel';
              ts' = ts\<lparr>thingsService.idp := idp1, thingsService.channels := crm'\<rparr>
          in (case res of
                Inl err \<Rightarrow> (Inl err, ts')
              | Inr _ \<Rightarrow> (Inr channel', ts')))"

definition ts_UpdateChannel :: "thingsService \<Rightarrow> string \<Rightarrow> Channel \<Rightarrow> error option \<times> thingsService" where
  "ts_UpdateChannel ts token channel =
     (case thingsService.users ts token of
        None \<Rightarrow> (Some ErrUnauthorizedAccess, ts)
      | Some owner \<Rightarrow>
          let (err, crm') = crm_Update (thingsService.channels ts) (channel\<lparr>Channel.Owner := owner\<rparr>)
          in (err, ts\<lparr>thingsService.channels := crm'\<rparr>))"

definition ts_ViewChannel :: "thingsService \<Rightarrow> string \<Rightarrow> string \<Rightarrow> error + Channel" where
  "ts_ViewChannel ts token ident =
     (case thingsService.users ts token of
        None \<Rightarrow> Inl ErrUnauthorizedAccess
      | Some owner \<Rightarrow> crm_One (thingsService.channels ts) owner ident)"

definition ts_ListChannels :: "string \<Rightarrow> string list \<Rightarrow> thingsService \<Rightarrow> string \<Rightarrow> int \<Rightarrow> int \<Rightarrow> error + Channel list" where
  "ts_ListChannels startID ks ts token offset limit =
     (case thingsService.users ts token of
        None \<Rightarrow> Inl ErrUnauthorizedAccess
      | Some owner \<Rightarrow> Inr (crm_All startID ks (thingsService.channels ts) owner offset limit))"

definition ts_RemoveChannel :: "thingsService \<Rightarrow> string \<Rightarrow> string \<Rightarrow> error option \<times> thingsService" where
  "ts_RemoveChannel ts token ident =
     (case thingsService.users ts token of
        None \<Rightarrow> (Some ErrUnauthorizedAccess, ts)
      | Some owner \<Rightarrow>
          let (err, crm') = crm_Remove (thingsService.channels ts) owner ident
          in (err, ts\<lparr>thingsService.channels := crm'\<rparr>))"

definition ts_Connect :: "thingsService \<Rightarrow> string \<Rightarrow> string \<Rightarrow> string \<Rightarrow> error option \<times> thingsService" where
  "ts_Connect ts token chanID thingID =
     (case thingsService.users ts token of
        None \<Rightarrow> (Some ErrUnauthorizedAccess, ts)
      | Some owner \<Rightarrow>
          let (err, crm') = crm_Connect (thingsService.things ts) (thingsService.channels ts) owner chanID thingID
          in (err, ts\<lparr>thingsService.channels := crm'\<rparr>))"

definition ts_Disconnect :: "thingsService \<Rightarrow> string \<Rightarrow> string \<Rightarrow> string \<Rightarrow> error option \<times> thingsService" where
  "ts_Disconnect ts token chanID thingID =
     (case thingsService.users ts token of
        None \<Rightarrow> (Some ErrUnauthorizedAccess, ts)
      | Some owner \<Rightarrow>
          let (err, crm') = crm_Disconnect (thingsService.channels ts) owner chanID thingID
          in (err, ts\<lparr>thingsService.channels := crm'\<rparr>))"

text \<open>
  \<open>CanAccess(key, channel)\<close>: the device key comes first, the channel id second. It does not
  call the oracle, and every error of \<open>HasThing\<close> becomes \<open>ErrUnauthorizedAccess\<close>.
\<close>

definition ts_CanAccess :: "string list \<Rightarrow> thingsService \<Rightarrow> string \<Rightarrow> string \<Rightarrow> error + string" where
  "ts_CanAccess ks ts k channel =
     (case crm_HasThing ks (thingsService.channels ts) channel k of
        Inl err \<Rightarrow> Inl ErrUnauthorizedAccess
      | Inr thingID \<Rightarrow> Inr thingID)"

text \<open>\<open>New\<close> instantiates the service from its four collaborators.\<close>

definition New :: "(string \<rightharpoonup> string) \<Rightarrow> thingRepositoryMock \<Rightarrow> channelRepositoryMock \<Rightarrow> identityProviderMock \<Rightarrow> thingsService" where
  "New us trm crm i =
     \<lparr>thingsService.users = us, thingsService.things = trm,
      thingsService.channels = crm, thingsService.idp = i\<rparr>"

section \<open>Scenarios\<close>

text \<open>
  The scenario of section 8 of the specification, run on a service with empty repositories and
  an empty \<open>startID\<close>: owner \<open>a\<close> creates a thing (it gets the id \<open>000000000001\<close>
  and the key \<open>000000000002\<close>) and then a channel (id \<open>000000000003\<close>).
\<close>

definition scenario_service :: thingsService where
  "scenario_service =
     snd (ts_CreateChannel []
       (snd (ts_AddThing []
          (New [''tokenA'' \<mapsto> ''a''] NewThingRepository NewChannelRepository NewIdentityProvider)
          ''tokenA'' zeroThing))
       ''tokenA'' zeroChannel)"

text \<open>
  Two owners whose identities differ by a suffix that starts with the separator: \<open>tokenA\<close>
  resolves to \<open>u@x.io-y.com\<close>, \<open>tokenB\<close> to \<open>u@x.io\<close>. The first owner creates one
  channel (id \<open>000000000001\<close>); the second owner creates nothing.
\<close>

definition scenario_two_owners :: thingsService where
  "scenario_two_owners =
     snd (ts_CreateChannel []
       (New [''tokenA'' \<mapsto> ''u@x.io-y.com'', ''tokenB'' \<mapsto> ''u@x.io'']
          NewThingRepository NewChannelRepository NewIdentityProvider)
       ''tokenA'' zeroChannel)"

text \<open>
  Owner \<open>a\<close> creates two things (ids \<open>000000000001\<close> and \<open>000000000003\<close>, keys
  \<open>000000000002\<close> and \<open>000000000004\<close>) and a channel (id \<open>000000000005\<close>), and
  connects both things to the channel.
\<close>

definition scenario_two_things :: thingsService where
  "scenario_two_things =
     snd (ts_Connect
       (snd (ts_Connect
          (snd (ts_CreateChannel []
             (snd (ts_AddThing []
                (snd (ts_AddThing []
                   (New [''tokenA'' \<mapsto> ''a''] NewThingRepository NewChannelRepository NewIdentityProvider)
                   ''tokenA'' zeroThing))
                ''tokenA'' zeroThing))
             ''tokenA'' zeroChannel))
          ''tokenA'' ''000000000005'' ''000000000001''))
       ''tokenA'' ''000000000005'' ''000000000003'')"


section \<open>Auxiliary facts\<close>

lemma Sprintf_012d_1: "Sprintf_012d 1 = ''000000000001''"
  by code_simp

lemma Sprintf_012d_2: "Sprintf_012d 2 = ''000000000002''"
  by code_simp

lemma Sprintf_012d_3: "Sprintf_012d 3 = ''000000000003''"
  by code_simp

lemma HasSuffix_key: "HasSuffix (key owner ident) (''-'' @ ident)"
  by (simp add: HasSuffix_def key_def suffix_def)

lemma find_unique:
  assumes "kk \<in> set ks" and "P kk" and "\<forall>k\<in>set ks. P k \<longrightarrow> k = kk"
  shows "find P ks = Some kk"
  using assms
proof (induction ks)
  case Nil
  then show ?case by simp
next
  case (Cons a ks)
  show ?case
  proof (cases "P a")
    case True
    then have "a = kk" using Cons.prems(3) by simp
    with True show ?thesis by simp
  next
    case False
    then have "kk \<in> set ks" using Cons.prems(1,2) by auto
    moreover have "\<forall>k\<in>set ks. P k \<longrightarrow> k = kk" using Cons.prems(3) by simp
    ultimately have "find P ks = Some kk" using Cons.IH Cons.prems(2) by blast
    with False show ?thesis by simp
  qed
qed

lemma HasThing_range_find:
  "HasThing_range m suf dk ks =
     (case find (\<lambda>k. m k \<noteq> None \<and> HasSuffix k suf) ks of
        None \<Rightarrow> Inl ErrNotFound
      | Some k \<Rightarrow> HasThing_things dk (Things (the (m k))))"
  by (induction ks) (simp_all split: option.splits)

lemma HasThing_range_unique:
  assumes "m kk = Some v" and "kk \<in> set ks" and "HasSuffix kk suf"
    and "\<forall>k \<in> set ks. m k \<noteq> None \<and> HasSuffix k suf \<longrightarrow> k = kk"
  shows "HasThing_range m suf dk ks = HasThing_things dk (Things v)"
proof -
  have "find (\<lambda>k. m k \<noteq> None \<and> HasSuffix k suf) ks = Some kk"
    using assms(1,2,3) by (intro find_unique [OF _ _ assms(4)]) simp_all
  then show ?thesis using assms(1) by (simp add: HasThing_range_find)
qed

lemma Disconnect_append_filter:
  "Disconnect_append thingID xs connected =
     connected @ filter (\<lambda>thing. Thing.ID thing \<noteq> thingID) xs"
  by (induction xs arbitrary: connected) auto

lemma Disconnect_range_present:
  "thingID \<in> Thing.ID ` set xs \<Longrightarrow>
   Disconnect_range crm channel thingID xs =
     crm_Update crm (channel\<lparr>Things := replicate (length (Things channel) - 1) zeroThing
        @ filter (\<lambda>thing. Thing.ID thing \<noteq> thingID) (Things channel)\<rparr>)"
  by (induction xs) (auto simp: Disconnect_append_filter)

lemma Disconnect_range_absent:
  "thingID \<notin> Thing.ID ` set xs \<Longrightarrow>
   Disconnect_range crm channel thingID xs = (Some ErrNotFound, crm)"
  by (induction xs) auto

lemma crm_Disconnect_member:
  assumes "crm_One crm owner chanID = Inr channel"
    and "Channel.Owner channel = owner" "Channel.ID channel = chanID"
    and "thingID \<in> Thing.ID ` set (Things channel)"
  shows "crm_Disconnect crm owner chanID thingID =
           (None, crm\<lparr>channelRepositoryMock.channels :=
              (channelRepositoryMock.channels crm)
                (key owner chanID \<mapsto>
                   channel\<lparr>Things := replicate (length (Things channel) - 1) zeroThing
                     @ filter (\<lambda>thing. Thing.ID thing \<noteq> thingID) (Things channel)\<rparr>)\<rparr>)"
  using assms
  by (auto simp add: crm_Disconnect_def Disconnect_range_present crm_Update_def crm_One_def
      split: option.splits)

lemma scenario_service_users: "thingsService.users scenario_service = [''tokenA'' \<mapsto> ''a'']"
  by (simp add: scenario_service_def ts_CreateChannel_def ts_AddThing_def New_def idp_ID_def
      crm_Save_def trm_Save_def Let_def NewThingRepository_def)

lemma scenario_service_channels:
  "channelRepositoryMock.channels (thingsService.channels scenario_service) =
     [''a-000000000003'' \<mapsto> zeroChannel\<lparr>Channel.ID := ''000000000003'', Channel.Owner := ''a''\<rparr>]"
  by (simp add: scenario_service_def ts_CreateChannel_def ts_AddThing_def New_def idp_ID_def
      crm_Save_def trm_Save_def Let_def NewChannelRepository_def NewThingRepository_def
      NewIdentityProvider_def key_def Sprintf_012d_3)

lemma scenario_service_things:
  "thingRepositoryMock.things (thingsService.things scenario_service) =
     [''a-000000000001'' \<mapsto>
        zeroThing\<lparr>Thing.ID := ''000000000001'', Thing.Owner := ''a'', Thing.Key := ''000000000002''\<rparr>]"
  by (simp add: scenario_service_def ts_CreateChannel_def ts_AddThing_def New_def idp_ID_def
      crm_Save_def trm_Save_def Let_def NewChannelRepository_def NewThingRepository_def
      NewIdentityProvider_def key_def Sprintf_012d_1 Sprintf_012d_2)

lemma scenario_two_owners_channels:
  "channelRepositoryMock.channels (thingsService.channels scenario_two_owners) =
     [''u@x.io-y.com-000000000001'' \<mapsto>
        zeroChannel\<lparr>Channel.ID := ''000000000001'', Channel.Owner := ''u@x.io-y.com''\<rparr>]"
  by (simp add: scenario_two_owners_def ts_CreateChannel_def New_def idp_ID_def
      crm_Save_def Let_def NewChannelRepository_def NewIdentityProvider_def key_def Sprintf_012d_1)

text \<open>\<open>Update\<close> at a key that holds nothing fails with NotFound and writes nothing.\<close>

lemma Update_missing_key:
  assumes "thingsService.users ts token = Some owner"
  shows "(channelRepositoryMock.channels (thingsService.channels ts) (key owner (Channel.ID channel)) = None
           \<longrightarrow> ts_UpdateChannel ts token channel = (Some ErrNotFound, ts))
       \<and> (thingRepositoryMock.things (thingsService.things ts) (key owner (Thing.ID thing)) = None
           \<longrightarrow> ts_UpdateThing ts token thing = (Some ErrNotFound, ts))"
  using assms by (simp add: ts_UpdateChannel_def ts_UpdateThing_def crm_Update_def trm_Update_def)

subsection \<open>Decimal formatting and the order of strings\<close>

lemma digit_less_iff: "a < 10 \<Longrightarrow> b < 10 \<Longrightarrow> digit a < digit b \<longleftrightarrow> a < b"
  by (simp add: digit_def less_char_def)

lemma digit_eq_iff: "a < 10 \<Longrightarrow> b < 10 \<Longrightarrow> digit a = digit b \<longleftrightarrow> a = b"
proof -
  assume a: "a < 10" and b: "b < 10"
  have "digit a = digit b \<Longrightarrow> a = b"
  proof -
    assume "digit a = digit b"
    then have "of_char (digit a) = (of_char (digit b) :: nat)" by simp
    then show "a = b" using a b by (simp add: digit_def)
  qed
  then show ?thesis by auto
qed

lemma digit_0: "digit 0 = CHR ''0''"
  by code_simp

lemma append_less_append: "(p :: 'a :: linorder list) @ x < p @ y \<longleftrightarrow> x < y"
  by (induction p) simp_all

lemma append_le_append: "(p :: 'a :: linorder list) @ x \<le> p @ y \<longleftrightarrow> x \<le> y"
  by (induction p) simp_all

lemma snoc_less_snoc:
  "length xs = length ys \<Longrightarrow>
   (xs :: 'a :: linorder list) @ [a] < ys @ [b] \<longleftrightarrow> xs < ys \<or> xs = ys \<and> a < b"
  by (induction xs ys rule: list_induct2) auto

lemma length_decimal: "n < 10 ^ w \<Longrightarrow> 0 < w \<Longrightarrow> length (decimal n) \<le> w"
proof (induction w arbitrary: n)
  case 0
  then show ?case by simp
next
  case (Suc w)
  show ?case
  proof (cases "n < 10")
    case True
    then show ?thesis by (simp add: decimal.simps)
  next
    case False
    then have "n div 10 < 10 ^ w" "0 < w" using Suc.prems by (auto intro: Nat.gr0I)
    then have "length (decimal (n div 10)) \<le> w" by (rule Suc.IH)
    with False show ?thesis by (simp add: decimal.simps [of n])
  qed
qed

lemma zeroPad_Suc:
  assumes "n < 10 ^ Suc w" and "0 < w"
  shows "zeroPad (Suc w) (decimal n) = zeroPad w (decimal (n div 10)) @ [digit (n mod 10)]"
proof (cases "n < 10")
  case True
  then have "decimal n = [digit n]" "decimal (n div 10) = [CHR ''0'']"
    by (simp_all add: decimal.simps digit_0)
  moreover have "replicate w (CHR ''0'') = replicate (w - 1) (CHR ''0'') @ [CHR ''0'']"
    using assms(2) by (cases w) (simp_all add: replicate_append_same)
  ultimately show ?thesis using True by (simp add: zeroPad_def)
next
  case False
  have "n div 10 < 10 ^ w" using assms(1) by auto
  then have "length (decimal (n div 10)) \<le> w" using assms(2) by (rule length_decimal)
  with False show ?thesis by (simp add: zeroPad_def decimal.simps [of n] Suc_diff_le)
qed

lemma length_zeroPad: "length s \<le> w \<Longrightarrow> length (zeroPad w s) = w"
  by (simp add: zeroPad_def)

lemma div_mod_10_less:
  "((a::nat) div 10 < b div 10 \<or> a div 10 = b div 10 \<and> a mod 10 < b mod 10) \<longleftrightarrow> a < b"
proof -
  define qa ra qb rb where "qa = a div 10" and "ra = a mod 10" and "qb = b div 10" and "rb = b mod 10"
  have "a = 10 * qa + ra" "b = 10 * qb + rb" "ra < 10" "rb < 10"
    by (simp_all add: qa_def ra_def qb_def rb_def)
  then have "(qa < qb \<or> qa = qb \<and> ra < rb) \<longleftrightarrow> a < b" by arith
  then show ?thesis by (simp add: qa_def ra_def qb_def rb_def)
qed

lemma div_mod_10_eq:
  "((a::nat) div 10 = b div 10 \<and> a mod 10 = b mod 10) \<longleftrightarrow> a = b"
proof -
  define qa ra qb rb where "qa = a div 10" and "ra = a mod 10" and "qb = b div 10" and "rb = b mod 10"
  have "a = 10 * qa + ra" "b = 10 * qb + rb" "ra < 10" "rb < 10"
    by (simp_all add: qa_def ra_def qb_def rb_def)
  then have "(qa = qb \<and> ra = rb) \<longleftrightarrow> a = b" by arith
  then show ?thesis by (simp add: qa_def ra_def qb_def rb_def)
qed

lemma zeroPad_less_iff:
  "0 < w \<Longrightarrow> a < 10 ^ w \<Longrightarrow> b < 10 ^ w \<Longrightarrow>
   (zeroPad w (decimal a) < zeroPad w (decimal b) \<longleftrightarrow> a < b)
   \<and> (zeroPad w (decimal a) = zeroPad w (decimal b) \<longleftrightarrow> a = b)"
proof (induction w arbitrary: a b)
  case 0
  then show ?case by simp
next
  case (Suc w)
  show ?case
  proof (cases "w = 0")
    case True
    then have "a < 10" "b < 10" using Suc.prems by simp_all
    then show ?thesis using True
      by (simp add: zeroPad_def decimal.simps digit_less_iff digit_eq_iff)
  next
    case False
    then have w: "0 < w" by simp
    have a: "a div 10 < 10 ^ w" and b: "b div 10 < 10 ^ w" using Suc.prems by auto
    have IH: "(zeroPad w (decimal (a div 10)) < zeroPad w (decimal (b div 10)) \<longleftrightarrow> a div 10 < b div 10)"
      "(zeroPad w (decimal (a div 10)) = zeroPad w (decimal (b div 10)) \<longleftrightarrow> a div 10 = b div 10)"
      using Suc.IH [OF w a b] by simp_all
    have len: "length (zeroPad w (decimal (a div 10))) = length (zeroPad w (decimal (b div 10)))"
      using length_decimal [OF a w] length_decimal [OF b w] by (simp add: length_zeroPad)
    have da: "a mod 10 < 10" and db: "b mod 10 < 10" by simp_all
    have A: "zeroPad (Suc w) (decimal a) = zeroPad w (decimal (a div 10)) @ [digit (a mod 10)]"
      using Suc.prems(2) w by (rule zeroPad_Suc)
    have B: "zeroPad (Suc w) (decimal b) = zeroPad w (decimal (b div 10)) @ [digit (b mod 10)]"
      using Suc.prems(3) w by (rule zeroPad_Suc)
    have "(zeroPad (Suc w) (decimal a) < zeroPad (Suc w) (decimal b))
        \<longleftrightarrow> (a div 10 < b div 10 \<or> a div 10 = b div 10 \<and> a mod 10 < b mod 10)"
      unfolding A B by (simp add: snoc_less_snoc [OF len] IH digit_less_iff [OF da db])
    moreover have "(zeroPad (Suc w) (decimal a) = zeroPad (Suc w) (decimal b))
        \<longleftrightarrow> (a div 10 = b div 10 \<and> a mod 10 = b mod 10)"
      unfolding A B by (simp add: IH digit_eq_iff [OF da db])
    moreover have "(a div 10 < b div 10 \<or> a div 10 = b div 10 \<and> a mod 10 < b mod 10) \<longleftrightarrow> a < b"
      by (rule div_mod_10_less)
    moreover have "(a div 10 = b div 10 \<and> a mod 10 = b mod 10) \<longleftrightarrow> a = b"
      by (rule div_mod_10_eq)
    ultimately show ?thesis by simp
  qed
qed

lemma Sprintf_012d_less_iff:
  assumes "0 \<le> a" "a < 10 ^ 12" "0 \<le> b" "b < 10 ^ 12"
  shows "Sprintf_012d a < Sprintf_012d b \<longleftrightarrow> a < b"
    and "Sprintf_012d a = Sprintf_012d b \<longleftrightarrow> a = b"
proof -
  have a: "nat a < 10 ^ 12" and b: "nat b < 10 ^ 12" using assms by (simp_all add: nat_less_iff)
  have "(0::nat) < 12" by simp
  from zeroPad_less_iff [OF this a b] assms
  show "Sprintf_012d a < Sprintf_012d b \<longleftrightarrow> a < b"
    and "Sprintf_012d a = Sprintf_012d b \<longleftrightarrow> a = b"
    by (auto simp add: Sprintf_012d_def)
qed

lemma wrap64_id: "- (2 ^ 63) \<le> x \<Longrightarrow> x < 2 ^ 63 \<Longrightarrow> wrap64 x = x"
  by (simp add: wrap64_def)

subsection \<open>The range scan of All\<close>

text \<open>
  What \<open>All\<close> computes while its boundaries keep twelve digits, on a store whose ids are
  \<open>startID\<close> followed by \<open>%012d\<close> of a number: the channels under the prefix of the owner
  whose identifier number lies in the window from \<open>offset + 1\<close> to \<open>offset + limit\<close>.
\<close>

lemma All_range_filter:
  "All_range m pre first last' ks acc =
     acc @ map (the \<circ> m)
       (filter (\<lambda>k. case m k of None \<Rightarrow> False
                     | Some v \<Rightarrow> HasPrefix k pre \<and> first \<le> Channel.ID v \<and> Channel.ID v < last') ks)"
  by (induction ks arbitrary: acc) (auto split: option.splits)

lemma distinct_map_sort_key: "distinct (map f (sort_key f xs)) \<longleftrightarrow> distinct (map f xs)"
  by (simp add: distinct_map)

lemma HasPrefix_key: "HasPrefix (key owner ident) (owner @ ''-'')"
  by (simp add: HasPrefix_def key_def)

lemma ID_in_window:
  assumes "0 < n" "n < 10 ^ 12" "0 \<le> lo" "lo < hi" "hi < 10 ^ 12"
  shows "(startID @ Sprintf_012d lo \<le> startID @ Sprintf_012d n
            \<and> startID @ Sprintf_012d n < startID @ Sprintf_012d hi)
         \<longleftrightarrow> lo \<le> n \<and> n < hi"
proof -
  have n0: "0 \<le> n" using assms(1) by simp
  have lo12: "lo < 10 ^ 12" and hi0: "0 \<le> hi" using assms by simp_all
  have "Sprintf_012d lo \<le> Sprintf_012d n \<longleftrightarrow> \<not> Sprintf_012d n < Sprintf_012d lo"
    by auto
  also have "\<dots> \<longleftrightarrow> \<not> n < lo"
    using Sprintf_012d_less_iff(1) [OF n0 assms(2) assms(3) lo12] by simp
  finally have 1: "Sprintf_012d lo \<le> Sprintf_012d n \<longleftrightarrow> lo \<le> n" by auto
  have 2: "Sprintf_012d n < Sprintf_012d hi \<longleftrightarrow> n < hi"
    by (rule Sprintf_012d_less_iff(1) [OF n0 assms(2) hi0 assms(5)])
  show ?thesis by (simp add: append_less_append append_le_append 1 2)
qed

lemma crm_All_unfold:
  assumes "0 \<le> offset" "0 < limit" "offset + limit + 1 < 10 ^ 12"
  shows "crm_All startID ks crm owner offset limit =
     sort_key Channel.ID (map (the \<circ> channelRepositoryMock.channels crm)
       (filter (\<lambda>k. case channelRepositoryMock.channels crm k of None \<Rightarrow> False
                     | Some v \<Rightarrow> HasPrefix k (owner @ ''-'')
                         \<and> startID @ Sprintf_012d (offset + 1) \<le> Channel.ID v
                         \<and> Channel.ID v < startID @ Sprintf_012d (offset + limit + 1)) ks))"
proof -
  have "wrap64 (offset + 1) = offset + 1" using assms by (intro wrap64_id) simp_all
  moreover have "wrap64 (offset + limit) = offset + limit" using assms by (intro wrap64_id) simp_all
  moreover have "wrap64 (offset + limit + 1) = offset + limit + 1" using assms by (intro wrap64_id) simp_all
  ultimately show ?thesis
    using assms(1,2) by (simp add: crm_All_def Let_def All_range_filter)
qed

lemma crm_All_window:
  assumes wf: "\<forall>k v. channelRepositoryMock.channels crm k = Some v \<longrightarrow>
                 k = key (Channel.Owner v) (Channel.ID v)
                 \<and> (\<exists>n. 0 < n \<and> n < 10 ^ 12 \<and> Channel.ID v = startID @ Sprintf_012d n)"
    and own: "\<forall>k v. channelRepositoryMock.channels crm k = Some v \<and> HasPrefix k (owner @ ''-'')
                 \<longrightarrow> Channel.Owner v = owner"
    and rng: "0 \<le> offset" "0 < limit" "offset + limit + 1 < 10 ^ 12"
    and ks: "set ks = dom (channelRepositoryMock.channels crm)" "distinct ks"
  shows "set (crm_All startID ks crm owner offset limit) =
           {v. v \<in> ran (channelRepositoryMock.channels crm) \<and> Channel.Owner v = owner
               \<and> (\<exists>r. offset \<le> r \<and> r < offset + limit
                        \<and> Channel.ID v = startID @ Sprintf_012d (r + 1))}"
    and "distinct (map Channel.ID (crm_All startID ks crm owner offset limit))"
    and "length (crm_All startID ks crm owner offset limit) \<le> nat limit"
proof -
  define m where "m = channelRepositoryMock.channels crm"
  define lo where "lo = offset + 1"
  define hi where "hi = offset + limit + 1"
  define sel where "sel = (\<lambda>k. case m k of None \<Rightarrow> False
      | Some v \<Rightarrow> HasPrefix k (owner @ ''-'')
          \<and> startID @ Sprintf_012d lo \<le> Channel.ID v \<and> Channel.ID v < startID @ Sprintf_012d hi)"
  define xs where "xs = map (the \<circ> m) (filter sel ks)"
  have all: "crm_All startID ks crm owner offset limit = sort_key Channel.ID xs"
    unfolding xs_def sel_def m_def lo_def hi_def by (rule crm_All_unfold [OF rng])
  have lohi: "0 \<le> lo" "lo < hi" "hi < 10 ^ 12" using rng by (simp_all add: lo_def hi_def)
  have wfk: "k = key (Channel.Owner v) (Channel.ID v)" if "m k = Some v" for k v
    using wf that unfolding m_def by blast
  have wfn: "\<exists>n. 0 < n \<and> n < 10 ^ 12 \<and> Channel.ID v = startID @ Sprintf_012d n" if "m k = Some v" for k v
    using wf that unfolding m_def by blast
  have ownk: "Channel.Owner v = owner" if "m k = Some v" "HasPrefix k (owner @ ''-'')" for k v
    using own that unfolding m_def by blast
  have selD: "\<exists>v. m k = Some v \<and> HasPrefix k (owner @ ''-'')
      \<and> startID @ Sprintf_012d lo \<le> Channel.ID v \<and> Channel.ID v < startID @ Sprintf_012d hi"
    if "sel k" for k
    using that by (cases "m k") (simp_all add: sel_def)
  have selI: "sel k" if "m k = Some v" "HasPrefix k (owner @ ''-'')"
      "startID @ Sprintf_012d lo \<le> Channel.ID v" "Channel.ID v < startID @ Sprintf_012d hi" for k v
    using that by (simp add: sel_def)
  have win: "(startID @ Sprintf_012d lo \<le> startID @ Sprintf_012d n
            \<and> startID @ Sprintf_012d n < startID @ Sprintf_012d hi) \<longleftrightarrow> lo \<le> n \<and> n < hi"
    if "0 < n" "n < 10 ^ 12" for n
    using that lohi by (intro ID_in_window)
  have setxs: "set xs = {v. \<exists>k. k \<in> set ks \<and> sel k \<and> m k = Some v}"
  proof (intro set_eqI iffI)
    fix v assume "v \<in> set xs"
    then obtain k where k: "k \<in> set ks" "sel k" "v = the (m k)" by (auto simp: xs_def)
    from selD [OF k(2)] k(3) have "m k = Some v" by auto
    with k show "v \<in> {v. \<exists>k. k \<in> set ks \<and> sel k \<and> m k = Some v}" by blast
  next
    fix v assume "v \<in> {v. \<exists>k. k \<in> set ks \<and> sel k \<and> m k = Some v}"
    then obtain k where k: "k \<in> set ks" "sel k" "m k = Some v" by blast
    then have "v = (the \<circ> m) k" by simp
    with k show "v \<in> set xs" unfolding xs_def by (metis (no_types, lifting) image_eqI set_filter set_map mem_Collect_eq)
  qed
  have page: "set xs = {v. v \<in> ran m \<and> Channel.Owner v = owner
               \<and> (\<exists>r. offset \<le> r \<and> r < offset + limit
                        \<and> Channel.ID v = startID @ Sprintf_012d (r + 1))}"
  proof (intro set_eqI iffI)
    fix v assume "v \<in> set xs"
    then obtain k where k: "k \<in> set ks" "sel k" "m k = Some v" unfolding setxs by blast
    from selD [OF k(2)] k(3) have p: "HasPrefix k (owner @ ''-'')"
      and w: "startID @ Sprintf_012d lo \<le> Channel.ID v" "Channel.ID v < startID @ Sprintf_012d hi"
      by auto
    from wfn [OF k(3)] obtain n where n: "0 < n" "n < 10 ^ 12" "Channel.ID v = startID @ Sprintf_012d n"
      by blast
    from w n(3) win [OF n(1,2)] have "lo \<le> n" "n < hi" by auto
    then have "offset \<le> n - 1" "n - 1 < offset + limit" by (simp_all add: lo_def hi_def)
    moreover have "Channel.ID v = startID @ Sprintf_012d ((n - 1) + 1)" using n(3) by simp
    ultimately have "\<exists>r. offset \<le> r \<and> r < offset + limit \<and> Channel.ID v = startID @ Sprintf_012d (r + 1)"
      by blast
    moreover have "v \<in> ran m" using k(3) by (auto simp: ran_def)
    moreover have "Channel.Owner v = owner" by (rule ownk [OF k(3) p])
    ultimately show "v \<in> {v. v \<in> ran m \<and> Channel.Owner v = owner
               \<and> (\<exists>r. offset \<le> r \<and> r < offset + limit
                        \<and> Channel.ID v = startID @ Sprintf_012d (r + 1))}" by blast
  next
    fix v assume "v \<in> {v. v \<in> ran m \<and> Channel.Owner v = owner
               \<and> (\<exists>r. offset \<le> r \<and> r < offset + limit
                        \<and> Channel.ID v = startID @ Sprintf_012d (r + 1))}"
    then obtain k r where k: "m k = Some v" and o: "Channel.Owner v = owner"
      and r: "offset \<le> r" "r < offset + limit" "Channel.ID v = startID @ Sprintf_012d (r + 1)"
      by (auto simp: ran_def)
    have kin: "k \<in> set ks" using k ks(1) by (auto simp: m_def)
    have "k = key owner (Channel.ID v)" using wfk [OF k] o by simp
    then have p: "HasPrefix k (owner @ ''-'')" by (simp add: HasPrefix_key)
    have r1: "0 < r + 1" "r + 1 < 10 ^ 12" using r rng by simp_all
    have "lo \<le> r + 1" "r + 1 < hi" using r by (simp_all add: lo_def hi_def)
    with win [OF r1] r(3) have "startID @ Sprintf_012d lo \<le> Channel.ID v"
      "Channel.ID v < startID @ Sprintf_012d hi" by simp_all
    with k p have "sel k" by (intro selI)
    with kin k show "v \<in> set xs" unfolding setxs by blast
  qed
  have inj: "inj_on (Channel.ID \<circ> (the \<circ> m)) (set (filter sel ks))"
  proof (rule inj_onI)
    fix k k' assume a: "k \<in> set (filter sel ks)" "k' \<in> set (filter sel ks)"
      and e: "(Channel.ID \<circ> (the \<circ> m)) k = (Channel.ID \<circ> (the \<circ> m)) k'"
    from a have "sel k" "sel k'" by simp_all
    from selD [OF this(1)] selD [OF this(2)] obtain v v' where
      v: "m k = Some v" "HasPrefix k (owner @ ''-'')" and v': "m k' = Some v'" "HasPrefix k' (owner @ ''-'')"
      by blast
    have "Channel.ID v = Channel.ID v'" using e v(1) v'(1) by simp
    moreover have "Channel.Owner v = owner" "Channel.Owner v' = owner"
      using ownk [OF v] ownk [OF v'] by simp_all
    ultimately show "k = k'" using wfk [OF v(1)] wfk [OF v'(1)] by simp
  qed
  have dist: "distinct (map Channel.ID xs)"
    unfolding xs_def using ks(2) inj by (simp add: distinct_map)
  have sub: "set (map Channel.ID xs) \<subseteq> (\<lambda>r. startID @ Sprintf_012d (r + 1)) ` {offset ..< offset + limit}"
    using page by auto
  have "length xs = card (set (map Channel.ID xs))"
    using dist distinct_card [of "map Channel.ID xs"] by simp
  also have "\<dots> \<le> card ((\<lambda>r. startID @ Sprintf_012d (r + 1)) ` {offset ..< offset + limit})"
    using sub by (intro card_mono) simp_all
  also have "\<dots> \<le> card {offset ..< offset + limit}" by (rule card_image_le) simp
  also have "\<dots> = nat limit" by simp
  finally have len: "length xs \<le> nat limit" .
  show "set (crm_All startID ks crm owner offset limit) =
           {v. v \<in> ran (channelRepositoryMock.channels crm) \<and> Channel.Owner v = owner
               \<and> (\<exists>r. offset \<le> r \<and> r < offset + limit
                        \<and> Channel.ID v = startID @ Sprintf_012d (r + 1))}"
    using page by (simp add: all m_def)
  show "distinct (map Channel.ID (crm_All startID ks crm owner offset limit))"
    using dist by (simp add: all distinct_map_sort_key)
  show "length (crm_All startID ks crm owner offset limit) \<le> nat limit"
    using len by (simp add: all)
qed

lemma crm_All_sorted: "sorted (map Channel.ID (crm_All startID ks crm owner offset limit))"
  by (simp add: crm_All_def Let_def)

section \<open>Claims\<close>

subsection \<open>Connect, CanAccess, Disconnect\<close>

text \<open>
  C1 (as stated, refuted at the error kind). The claim: after a successful Connect of a freshly
  created thing and channel, CanAccess for the channel and the thing's key returns the thing's
  id, and after a Disconnect of the same pair it fails with NotFound. In the scenario of
  section 8 the last call of \<open>CanAccess\<close> fails with \<open>ErrUnauthorizedAccess\<close>, which is
  what the service makes of every error of \<open>HasThing\<close>; it is not \<open>ErrNotFound\<close>.
\<close>

theorem CanAccess_after_Disconnect_counterexample:
  "fst (ts_Connect scenario_service ''tokenA'' ''000000000003'' ''000000000001'') = None
   \<and> fst (ts_Disconnect (snd (ts_Connect scenario_service ''tokenA'' ''000000000003'' ''000000000001''))
          ''tokenA'' ''000000000003'' ''000000000001'') = None
   \<and> ts_CanAccess [''a-000000000003'']
        (snd (ts_Disconnect (snd (ts_Connect scenario_service ''tokenA'' ''000000000003'' ''000000000001''))
           ''tokenA'' ''000000000003'' ''000000000001''))
        ''000000000002'' ''000000000003'' = Inl ErrUnauthorizedAccess
   \<and> ts_CanAccess [''a-000000000003'']
        (snd (ts_Disconnect (snd (ts_Connect scenario_service ''tokenA'' ''000000000003'' ''000000000001''))
           ''tokenA'' ''000000000003'' ''000000000001''))
        ''000000000002'' ''000000000003'' \<noteq> Inl ErrNotFound"
  by code_simp

text \<open>
  C1 (amended). Let the service hold a channel \<open>C\<close> of \<open>owner\<close> under \<open>key owner chanID\<close>
  with nothing connected yet, a thing \<open>T\<close> of \<open>owner\<close> under \<open>key owner thingID\<close>, and let
  no other key of the channel store end with \<open>-chanID\<close> (the channel id is fresh). Then
  \<open>Connect\<close> succeeds and \<open>CanAccess\<close> with the key of \<open>T\<close> and the channel id returns
  \<open>thingID\<close>; the following \<open>Disconnect\<close> succeeds, after which \<open>HasThing\<close> fails with
  \<open>ErrNotFound\<close> and \<open>CanAccess\<close> with \<open>ErrUnauthorizedAccess\<close>. This holds for every
  order \<open>ks\<close>, \<open>ks'\<close> in which the map is visited.
\<close>

theorem Connect_Disconnect_CanAccess:
  assumes usr: "thingsService.users ts token = Some owner"
    and chan: "channelRepositoryMock.channels (thingsService.channels ts) (key owner chanID) = Some C"
    and C: "Channel.Owner C = owner" "Channel.ID C = chanID" "Things C = []"
    and thing: "thingRepositoryMock.things (thingsService.things ts) (key owner thingID) = Some T"
    and T: "Thing.ID T = thingID"
    and uniq: "\<forall>k \<in> dom (channelRepositoryMock.channels (thingsService.channels ts)).
                 HasSuffix k (''-'' @ chanID) \<longrightarrow> k = key owner chanID"
    and ks: "set ks = dom (channelRepositoryMock.channels (thingsService.channels ts))"
    and ks': "set ks' = dom (channelRepositoryMock.channels (thingsService.channels ts))"
  shows "fst (ts_Connect ts token chanID thingID) = None
       \<and> ts_CanAccess ks (snd (ts_Connect ts token chanID thingID)) (Thing.Key T) chanID = Inr thingID
       \<and> fst (ts_Disconnect (snd (ts_Connect ts token chanID thingID)) token chanID thingID) = None
       \<and> crm_HasThing ks' (thingsService.channels
            (snd (ts_Disconnect (snd (ts_Connect ts token chanID thingID)) token chanID thingID)))
            chanID (Thing.Key T) = Inl ErrNotFound
       \<and> ts_CanAccess ks' (snd (ts_Disconnect (snd (ts_Connect ts token chanID thingID)) token chanID thingID))
            (Thing.Key T) chanID = Inl ErrUnauthorizedAccess"
proof -
  define crm where "crm = thingsService.channels ts"
  define m where "m = channelRepositoryMock.channels crm"
  define kk where "kk = key owner chanID"
  define m1 where "m1 = m(kk \<mapsto> C\<lparr>Things := [T]\<rparr>)"
  define m2 where "m2 = m1(kk \<mapsto> C\<lparr>Things := []\<rparr>)"
  define crm1 where "crm1 = crm\<lparr>channelRepositoryMock.channels := m1\<rparr>"
  define crm2 where "crm2 = crm1\<lparr>channelRepositoryMock.channels := m2\<rparr>"
  have mkk: "m kk = Some C" using chan by (simp add: m_def crm_def kk_def)
  have Ckey: "key (Channel.Owner C) (Channel.ID C) = kk" using C by (simp add: kk_def)
  have one: "crm_One crm owner chanID = Inr C"
    using mkk by (simp add: crm_One_def m_def kk_def)
  have tone: "trm_One (thingsService.things ts) owner thingID = Inr T"
    using thing by (simp add: trm_One_def)
  have upd1: "crm_Update crm (C\<lparr>Things := Things C @ [T]\<rparr>) = (None, crm1)"
    using mkk Ckey C(3) by (simp add: crm_Update_def crm1_def m1_def m_def)
  have conn: "crm_Connect (thingsService.things ts) crm owner chanID thingID = (None, crm1)"
    using one tone upd1 by (simp add: crm_Connect_def)
  have c1: "ts_Connect ts token chanID thingID = (None, ts\<lparr>thingsService.channels := crm1\<rparr>)"
    using usr conn by (simp add: ts_Connect_def crm_def)
  have kin: "kk \<in> set ks" "kk \<in> set ks'" using mkk ks ks' by (auto simp: m_def crm_def)
  have m1kk: "m1 kk = Some (C\<lparr>Things := [T]\<rparr>)" by (simp add: m1_def)
  have m2kk: "m2 kk = Some (C\<lparr>Things := []\<rparr>)" by (simp add: m2_def)
  have dom1: "dom m1 = dom m" using mkk by (auto simp: m1_def)
  have dom2: "dom m2 = dom m" using mkk by (auto simp: m2_def m1_def)
  have uniq': "\<forall>k \<in> dom m. HasSuffix k (''-'' @ chanID) \<longrightarrow> k = kk"
    using uniq unfolding m_def crm_def kk_def .
  have u1: "\<forall>k \<in> set ks. m1 k \<noteq> None \<and> HasSuffix k (''-'' @ chanID) \<longrightarrow> k = kk"
    using uniq' dom1 by blast
  have u2: "\<forall>k \<in> set ks'. m2 k \<noteq> None \<and> HasSuffix k (''-'' @ chanID) \<longrightarrow> k = kk"
    using uniq' dom2 by blast
  have suf: "HasSuffix kk (''-'' @ chanID)" unfolding kk_def by (rule HasSuffix_key)
  have "HasThing_range m1 (''-'' @ chanID) (Thing.Key T) ks
          = HasThing_things (Thing.Key T) (Things (C\<lparr>Things := [T]\<rparr>))"
    by (rule HasThing_range_unique [OF m1kk kin(1) suf u1])
  then have h1: "crm_HasThing ks crm1 chanID (Thing.Key T) = Inr thingID"
    using T by (simp add: crm_HasThing_def crm1_def)
  have one1: "crm_One crm1 owner chanID = Inr (C\<lparr>Things := [T]\<rparr>)"
    using m1kk by (simp add: crm_One_def crm1_def kk_def)
  have upd2: "crm_Update crm1 (C\<lparr>Things := []\<rparr>) = (None, crm2)"
    using m1kk Ckey by (simp add: crm_Update_def crm2_def m2_def crm1_def)
  have disc: "crm_Disconnect crm1 owner chanID thingID = (None, crm2)"
    using one1 T upd2 by (simp add: crm_Disconnect_def)
  have d1: "ts_Disconnect (ts\<lparr>thingsService.channels := crm1\<rparr>) token chanID thingID
      = (None, ts\<lparr>thingsService.channels := crm2\<rparr>)"
    using usr disc by (simp add: ts_Disconnect_def)
  have "HasThing_range m2 (''-'' @ chanID) (Thing.Key T) ks'
          = HasThing_things (Thing.Key T) (Things (C\<lparr>Things := []\<rparr>))"
    by (rule HasThing_range_unique [OF m2kk kin(2) suf u2])
  then have h2: "crm_HasThing ks' crm2 chanID (Thing.Key T) = Inl ErrNotFound"
    by (simp add: crm_HasThing_def crm2_def crm1_def)
  show ?thesis
    using c1 d1 h1 h2 by (simp add: ts_CanAccess_def)
qed

theorem Connect_Disconnect_CanAccess_witness:
  "fst (ts_Connect scenario_service ''tokenA'' ''000000000003'' ''000000000001'') = None
   \<and> ts_CanAccess [''a-000000000003'']
        (snd (ts_Connect scenario_service ''tokenA'' ''000000000003'' ''000000000001''))
        ''000000000002'' ''000000000003'' = Inr ''000000000001''
   \<and> fst (ts_Disconnect (snd (ts_Connect scenario_service ''tokenA'' ''000000000003'' ''000000000001''))
          ''tokenA'' ''000000000003'' ''000000000001'') = None
   \<and> crm_HasThing [''a-000000000003'']
        (thingsService.channels
          (snd (ts_Disconnect (snd (ts_Connect scenario_service ''tokenA'' ''000000000003'' ''000000000001''))
             ''tokenA'' ''000000000003'' ''000000000001'')))
        ''000000000003'' ''000000000002'' = Inl ErrNotFound
   \<and> ts_CanAccess [''a-000000000003'']
        (snd (ts_Disconnect (snd (ts_Connect scenario_service ''tokenA'' ''000000000003'' ''000000000001''))
           ''tokenA'' ''000000000003'' ''000000000001''))
        ''000000000002'' ''000000000003'' = Inl ErrUnauthorizedAccess"
proof -
  let ?C = "zeroChannel\<lparr>Channel.ID := ''000000000003'', Channel.Owner := ''a''\<rparr>"
  let ?T = "zeroThing\<lparr>Thing.ID := ''000000000001'', Thing.Owner := ''a'', Thing.Key := ''000000000002''\<rparr>"
  have usr: "thingsService.users scenario_service ''tokenA'' = Some ''a''"
    by (simp add: scenario_service_users)
  have chan: "channelRepositoryMock.channels (thingsService.channels scenario_service)
                (key ''a'' ''000000000003'') = Some ?C"
    by (simp add: scenario_service_channels key_def)
  have C: "Channel.Owner ?C = ''a''" "Channel.ID ?C = ''000000000003''" "Things ?C = []"
    by (simp_all add: zeroChannel_def)
  have thing: "thingRepositoryMock.things (thingsService.things scenario_service)
                 (key ''a'' ''000000000001'') = Some ?T"
    by (simp add: scenario_service_things key_def)
  have T: "Thing.ID ?T = ''000000000001''" by simp
  have uniq: "\<forall>k \<in> dom (channelRepositoryMock.channels (thingsService.channels scenario_service)).
                HasSuffix k (''-'' @ ''000000000003'') \<longrightarrow> k = key ''a'' ''000000000003''"
    by (simp add: scenario_service_channels key_def)
  have ks: "set [''a-000000000003''] = dom (channelRepositoryMock.channels (thingsService.channels scenario_service))"
    by (simp add: scenario_service_channels)
  show ?thesis
    using Connect_Disconnect_CanAccess [OF usr chan C thing T uniq ks ks] by simp
qed

subsection \<open>Update of an unknown (owner, id) pair\<close>

text \<open>
  C2 (the code departs from the claim). The claim: when no resource is stored under the pair
  (owner, id of the submitted resource), \<open>Update\<close> fails with NotFound, creates nothing and
  overwrites no resource of another owner. In \<open>scenario_two_owners\<close> the store holds one
  channel, of owner \<open>u@x.io-y.com\<close> with the id \<open>000000000001\<close>; owner \<open>u@x.io\<close> owns
  nothing. \<open>UpdateChannel\<close> with the credential of \<open>u@x.io\<close> and the id
  \<open>y.com-000000000001\<close> returns no error, because that pair has the key of the stored
  channel, and the channel of \<open>u@x.io-y.com\<close> is replaced by the submitted one.
\<close>

theorem Update_overwrites_other_owner:
  "channelRepositoryMock.channels (thingsService.channels scenario_two_owners) =
     [''u@x.io-y.com-000000000001'' \<mapsto>
        zeroChannel\<lparr>Channel.ID := ''000000000001'', Channel.Owner := ''u@x.io-y.com''\<rparr>]
   \<and> thingsService.users scenario_two_owners ''tokenB'' = Some ''u@x.io''
   \<and> fst (ts_UpdateChannel scenario_two_owners ''tokenB''
          (zeroChannel\<lparr>Channel.ID := ''y.com-000000000001'', Channel.Name := ''forged''\<rparr>)) = None
   \<and> ts_ViewChannel
        (snd (ts_UpdateChannel scenario_two_owners ''tokenB''
           (zeroChannel\<lparr>Channel.ID := ''y.com-000000000001'', Channel.Name := ''forged''\<rparr>)))
        ''tokenA'' ''000000000001''
     = Inr (zeroChannel\<lparr>Channel.ID := ''y.com-000000000001'', Channel.Owner := ''u@x.io'',
              Channel.Name := ''forged''\<rparr>)"
proof -
  have 1: "thingsService.users scenario_two_owners ''tokenB'' = Some ''u@x.io''"
    by code_simp
  have 2: "fst (ts_UpdateChannel scenario_two_owners ''tokenB''
          (zeroChannel\<lparr>Channel.ID := ''y.com-000000000001'', Channel.Name := ''forged''\<rparr>)) = None"
    by code_simp
  have 3: "ts_ViewChannel
        (snd (ts_UpdateChannel scenario_two_owners ''tokenB''
           (zeroChannel\<lparr>Channel.ID := ''y.com-000000000001'', Channel.Name := ''forged''\<rparr>)))
        ''tokenA'' ''000000000001''
     = Inr (zeroChannel\<lparr>Channel.ID := ''y.com-000000000001'', Channel.Owner := ''u@x.io'',
              Channel.Name := ''forged''\<rparr>)"
    by code_simp
  show ?thesis
    by (intro conjI) (fact scenario_two_owners_channels 1 2 3)+
qed

subsection \<open>Isolation of owners in All and One\<close>

text \<open>
  C3 (the code departs from the claim). The claim: no resource created by one owner appears in
  the \<open>All\<close> or \<open>One\<close> results of another owner. In \<open>scenario_two_owners\<close> the only
  channel was created by \<open>u@x.io-y.com\<close>; its key \<open>u@x.io-y.com-000000000001\<close> starts with
  \<open>u@x.io-\<close>, so \<open>ListChannels\<close> for \<open>u@x.io\<close> returns it, and it is also the key of the
  pair (\<open>u@x.io\<close>, \<open>y.com-000000000001\<close>), so \<open>ViewChannel\<close> for \<open>u@x.io\<close> returns it.
\<close>

theorem owners_not_isolated:
  "ts_ListChannels [] [''u@x.io-y.com-000000000001''] scenario_two_owners ''tokenA'' 0 10
     = Inr [zeroChannel\<lparr>Channel.ID := ''000000000001'', Channel.Owner := ''u@x.io-y.com''\<rparr>]
   \<and> thingsService.users scenario_two_owners ''tokenB'' = Some ''u@x.io''
   \<and> ts_ListChannels [] [''u@x.io-y.com-000000000001''] scenario_two_owners ''tokenB'' 0 10
     = Inr [zeroChannel\<lparr>Channel.ID := ''000000000001'', Channel.Owner := ''u@x.io-y.com''\<rparr>]
   \<and> ts_ViewChannel scenario_two_owners ''tokenB'' ''y.com-000000000001''
     = Inr (zeroChannel\<lparr>Channel.ID := ''000000000001'', Channel.Owner := ''u@x.io-y.com''\<rparr>)"
  by code_simp

subsection \<open>Pagination\<close>

text \<open>
  C4 (the code departs from the claim). The claim: \<open>All(owner, offset, limit)\<close> returns
  exactly the owner's resources whose creation rank lies in \<open>[offset, offset+limit)\<close>. In
  \<open>scenario_service\<close> owner \<open>a\<close> has created one thing and then one channel: the store
  holds exactly one channel, the first one of owner \<open>a\<close>. Its id is \<open>000000000003\<close>,
  the third identifier of the provider, which also numbers the things and their keys. \<open>All\<close>
  takes its window on these identifier numbers: the pages of offset 0 with limit 1 and with
  limit 2 are empty, and the channel is listed only when the window reaches the number 3.
\<close>

theorem ListChannels_misses_owner_page:
  "channelRepositoryMock.channels (thingsService.channels scenario_service) =
     [''a-000000000003'' \<mapsto> zeroChannel\<lparr>Channel.ID := ''000000000003'', Channel.Owner := ''a''\<rparr>]
   \<and> ts_ListChannels [] [''a-000000000003''] scenario_service ''tokenA'' 0 1 = Inr []
   \<and> ts_ListChannels [] [''a-000000000003''] scenario_service ''tokenA'' 0 2 = Inr []
   \<and> ts_ListChannels [] [''a-000000000003''] scenario_service ''tokenA'' 0 3
     = Inr [zeroChannel\<lparr>Channel.ID := ''000000000003'', Channel.Owner := ''a''\<rparr>]"
proof -
  have 1: "ts_ListChannels [] [''a-000000000003''] scenario_service ''tokenA'' 0 1 = Inr []"
    by code_simp
  have 2: "ts_ListChannels [] [''a-000000000003''] scenario_service ''tokenA'' 0 2 = Inr []"
    by code_simp
  have 3: "ts_ListChannels [] [''a-000000000003''] scenario_service ''tokenA'' 0 3
     = Inr [zeroChannel\<lparr>Channel.ID := ''000000000003'', Channel.Owner := ''a''\<rparr>]"
    by code_simp
  show ?thesis
    by (intro conjI) (fact scenario_service_channels 1 2 3)+
qed

subsection \<open>Connect of a pair that is already connected\<close>

text \<open>
  C5 (as stated, refuted). The claim: a thing occurs at most once in a channel's connected set,
  and \<open>Connect\<close> of an already connected pair does not add a second occurrence. In
  \<open>scenario_service\<close> two successive calls of \<open>Connect\<close> for the same pair both succeed,
  and the channel then lists the thing twice.
\<close>

theorem Connect_twice_counterexample:
  "fst (ts_Connect scenario_service ''tokenA'' ''000000000003'' ''000000000001'') = None
   \<and> fst (ts_Connect (snd (ts_Connect scenario_service ''tokenA'' ''000000000003'' ''000000000001''))
          ''tokenA'' ''000000000003'' ''000000000001'') = None
   \<and> ts_ViewChannel
        (snd (ts_Connect (snd (ts_Connect scenario_service ''tokenA'' ''000000000003'' ''000000000001''))
           ''tokenA'' ''000000000003'' ''000000000001''))
        ''tokenA'' ''000000000003''
     = Inr (zeroChannel\<lparr>Channel.ID := ''000000000003'', Channel.Owner := ''a'',
          Things := [zeroThing\<lparr>Thing.ID := ''000000000001'', Thing.Owner := ''a'', Thing.Key := ''000000000002''\<rparr>,
                     zeroThing\<lparr>Thing.ID := ''000000000001'', Thing.Owner := ''a'', Thing.Key := ''000000000002''\<rparr>]\<rparr>)"
  by code_simp

text \<open>
  C5 (amended). \<open>Connect\<close> has no membership check. Whenever the channel is stored under
  (\<open>owner\<close>, \<open>chanID\<close>) with that owner and id, and the thing is stored under
  (\<open>owner\<close>, \<open>thingID\<close>), \<open>Connect\<close> succeeds and replaces the stored channel by the
  channel with the thing appended at the end of its connected list, so the thing occurs once
  more than before; no other key of the store changes.
\<close>

theorem Connect_appends:
  assumes "crm_One crm owner chanID = Inr channel"
    and "Channel.Owner channel = owner" "Channel.ID channel = chanID"
    and "trm_One trm owner thingID = Inr thing"
  shows "crm_Connect trm crm owner chanID thingID =
           (None, crm\<lparr>channelRepositoryMock.channels :=
              (channelRepositoryMock.channels crm)
                (key owner chanID \<mapsto> channel\<lparr>Things := Things channel @ [thing]\<rparr>)\<rparr>)
       \<and> crm_One (snd (crm_Connect trm crm owner chanID thingID)) owner chanID
           = Inr (channel\<lparr>Things := Things channel @ [thing]\<rparr>)
       \<and> count_list (Things channel @ [thing]) thing = Suc (count_list (Things channel) thing)"
  using assms
  by (auto simp add: crm_Connect_def crm_One_def crm_Update_def split: option.splits)

theorem Connect_appends_witness:
  "crm_One (snd (crm_Connect (thingsService.things scenario_two_things)
        (thingsService.channels scenario_two_things) ''a'' ''000000000005'' ''000000000001''))
      ''a'' ''000000000005''
     = Inr (zeroChannel\<lparr>Channel.ID := ''000000000005'', Channel.Owner := ''a'',
          Things := [zeroThing\<lparr>Thing.ID := ''000000000001'', Thing.Owner := ''a'', Thing.Key := ''000000000002''\<rparr>,
                     zeroThing\<lparr>Thing.ID := ''000000000003'', Thing.Owner := ''a'', Thing.Key := ''000000000004''\<rparr>,
                     zeroThing\<lparr>Thing.ID := ''000000000001'', Thing.Owner := ''a'', Thing.Key := ''000000000002''\<rparr>]\<rparr>)"
proof -
  let ?T1 = "zeroThing\<lparr>Thing.ID := ''000000000001'', Thing.Owner := ''a'', Thing.Key := ''000000000002''\<rparr>"
  let ?T2 = "zeroThing\<lparr>Thing.ID := ''000000000003'', Thing.Owner := ''a'', Thing.Key := ''000000000004''\<rparr>"
  let ?C = "zeroChannel\<lparr>Channel.ID := ''000000000005'', Channel.Owner := ''a'', Things := [?T1, ?T2]\<rparr>"
  have one: "crm_One (thingsService.channels scenario_two_things) ''a'' ''000000000005'' = Inr ?C"
    by code_simp
  have C: "Channel.Owner ?C = ''a''" "Channel.ID ?C = ''000000000005''"
    by simp_all
  have tone: "trm_One (thingsService.things scenario_two_things) ''a'' ''000000000001'' = Inr ?T1"
    by code_simp
  have "crm_One (snd (crm_Connect (thingsService.things scenario_two_things)
            (thingsService.channels scenario_two_things) ''a'' ''000000000005'' ''000000000001''))
          ''a'' ''000000000005''
        = Inr (?C\<lparr>Things := Things ?C @ [?T1]\<rparr>)"
    using Connect_appends [OF one C tone] by (elim conjE)
  then show ?thesis by simp
qed

subsection \<open>Disconnect of a connected thing\<close>

text \<open>
  C6 (the code departs from the claim). The claim: a successful \<open>Disconnect\<close> removes the
  thing, keeps every other connected thing and adds no member that was not there. In
  \<open>scenario_two_things\<close> the channel lists the two things; after the \<open>Disconnect\<close> of the
  first one it lists a zero-valued thing followed by the second one: the new slice is made with
  length \<open>len(channel.Things)-1\<close> before the remaining things are appended.
\<close>

theorem Disconnect_adds_zero_Thing:
  "ts_ViewChannel scenario_two_things ''tokenA'' ''000000000005''
     = Inr (zeroChannel\<lparr>Channel.ID := ''000000000005'', Channel.Owner := ''a'',
          Things := [zeroThing\<lparr>Thing.ID := ''000000000001'', Thing.Owner := ''a'', Thing.Key := ''000000000002''\<rparr>,
                     zeroThing\<lparr>Thing.ID := ''000000000003'', Thing.Owner := ''a'', Thing.Key := ''000000000004''\<rparr>]\<rparr>)
   \<and> fst (ts_Disconnect scenario_two_things ''tokenA'' ''000000000005'' ''000000000001'') = None
   \<and> ts_ViewChannel (snd (ts_Disconnect scenario_two_things ''tokenA'' ''000000000005'' ''000000000001''))
        ''tokenA'' ''000000000005''
     = Inr (zeroChannel\<lparr>Channel.ID := ''000000000005'', Channel.Owner := ''a'',
          Things := [zeroThing,
                     zeroThing\<lparr>Thing.ID := ''000000000003'', Thing.Owner := ''a'', Thing.Key := ''000000000004''\<rparr>]\<rparr>)"
  by code_simp

subsection \<open>Disconnect of a thing that is not connected\<close>

text \<open>
  C7. When the channel stored under (\<open>owner\<close>, \<open>chanID\<close>) has no connected thing with the id
  \<open>thingID\<close>, \<open>Disconnect\<close> fails with \<open>ErrNotFound\<close> and returns the channel store as
  it was; the service call with a credential of that owner leaves the whole service state as it
  was.
\<close>

theorem Disconnect_non_member:
  assumes "crm_One crm owner chanID = Inr channel"
    and "thingID \<notin> Thing.ID ` set (Things channel)"
  shows "crm_Disconnect crm owner chanID thingID = (Some ErrNotFound, crm)
     \<and> (thingsService.users ts token = Some owner \<and> thingsService.channels ts = crm
         \<longrightarrow> ts_Disconnect ts token chanID thingID = (Some ErrNotFound, ts))"
  using assms by (simp add: crm_Disconnect_def ts_Disconnect_def Disconnect_range_absent)

theorem Disconnect_non_member_witness:
  "crm_Disconnect (thingsService.channels scenario_service) ''a'' ''000000000003'' ''000000000001''
     = (Some ErrNotFound, thingsService.channels scenario_service)
   \<and> ts_Disconnect scenario_service ''tokenA'' ''000000000003'' ''000000000001''
     = (Some ErrNotFound, scenario_service)"
proof -
  let ?C = "zeroChannel\<lparr>Channel.ID := ''000000000003'', Channel.Owner := ''a''\<rparr>"
  have one: "crm_One (thingsService.channels scenario_service) ''a'' ''000000000003'' = Inr ?C"
    by (simp add: crm_One_def scenario_service_channels key_def)
  have non: "''000000000001'' \<notin> Thing.ID ` set (Things ?C)"
    by (simp add: zeroChannel_def)
  show ?thesis
    using Disconnect_non_member [OF one non, of scenario_service "''tokenA''"]
    by (simp add: scenario_service_users)
qed

subsection \<open>Creation stamps the identifier and the owner\<close>




subsection \<open>Remove of a resource that is not stored\<close>

text \<open>
  C9 (as stated, refuted). The claim: \<open>Remove\<close> of an (owner, id) pair under which nothing is
  stored reports NotFound. On the empty store both the repository and the service return no
  error.
\<close>

theorem Remove_absent_counterexample:
  "channelRepositoryMock.channels NewChannelRepository (key ''a'' ''000000000001'') = None
   \<and> fst (crm_Remove NewChannelRepository ''a'' ''000000000001'') = None
   \<and> fst (ts_RemoveChannel
        (New [''tokenA'' \<mapsto> ''a''] NewThingRepository NewChannelRepository NewIdentityProvider)
        ''tokenA'' ''000000000001'') = None"
  by (simp add: crm_Remove_def ts_RemoveChannel_def New_def NewChannelRepository_def)

text \<open>
  C9 (amended). \<open>Remove\<close> has no check and never reports NotFound: for every owner and id,
  whether or not a resource is stored under the pair, it returns no error, and so does
  \<open>RemoveChannel\<close> with a credential of that owner.
\<close>

theorem Remove_returns_nil:
  "fst (crm_Remove crm owner ident) = None
   \<and> (thingsService.users ts token = Some owner \<longrightarrow> fst (ts_RemoveChannel ts token ident) = None)"
  by (simp add: crm_Remove_def ts_RemoveChannel_def)

theorem Remove_returns_nil_witness:
  "fst (crm_Remove (thingsService.channels scenario_service) ''b'' ''000000000003'') = None
   \<and> fst (ts_RemoveChannel scenario_service ''tokenA'' ''000000000001'') = None"
proof -
  have usr: "thingsService.users scenario_service ''tokenA'' = Some ''a''"
    by (simp add: scenario_service_users)
  have 1: "fst (crm_Remove (thingsService.channels scenario_service) ''b'' ''000000000003'') = None"
    by (rule Remove_returns_nil [THEN conjunct1])
  have 2: "fst (ts_RemoveChannel scenario_service ''tokenA'' ''000000000001'') = None"
    by (rule mp [OF Remove_returns_nil [THEN conjunct2] usr])
  show ?thesis by (intro conjI) (fact 1 2)+
qed

subsection \<open>Save under a key that is in use\<close>

text \<open>
  C10 (as stated, refuted). The claim: a \<open>Save\<close> whose (owner, id) key is already in use
  fails with Conflict and leaves the stored resource unchanged. Saving a second channel under
  the key of \<open>scenario_service\<close>'s channel returns the id with no error, and the store then
  holds the second channel.
\<close>

theorem Save_collision_counterexample:
  "crm_One (thingsService.channels scenario_service) ''a'' ''000000000003''
     = Inr (zeroChannel\<lparr>Channel.ID := ''000000000003'', Channel.Owner := ''a''\<rparr>)
   \<and> fst (crm_Save (thingsService.channels scenario_service)
        (zeroChannel\<lparr>Channel.ID := ''000000000003'', Channel.Owner := ''a'', Channel.Name := ''new''\<rparr>))
     = Inr ''000000000003''
   \<and> crm_One (snd (crm_Save (thingsService.channels scenario_service)
        (zeroChannel\<lparr>Channel.ID := ''000000000003'', Channel.Owner := ''a'', Channel.Name := ''new''\<rparr>)))
        ''a'' ''000000000003''
     = Inr (zeroChannel\<lparr>Channel.ID := ''000000000003'', Channel.Owner := ''a'', Channel.Name := ''new''\<rparr>)"
  by code_simp

text \<open>
  C10 (amended). \<open>Save\<close> never fails: it returns the id of the channel with no error, the
  channel is afterwards the one stored under its (owner, id) key, replacing what was stored
  there, and every other key holds what it held before.
\<close>

theorem Save_overwrites:
  "fst (crm_Save crm channel) = Inr (Channel.ID channel)
   \<and> crm_One (snd (crm_Save crm channel)) owner ident =
       (if key owner ident = key (Channel.Owner channel) (Channel.ID channel) then Inr channel
        else crm_One crm owner ident)"
  by (simp add: crm_Save_def crm_One_def)

theorem Save_overwrites_witness:
  "fst (crm_Save (thingsService.channels scenario_service)
        (zeroChannel\<lparr>Channel.ID := ''000000000003'', Channel.Owner := ''a'', Channel.Name := ''new''\<rparr>))
     = Inr ''000000000003''
   \<and> crm_One (snd (crm_Save (thingsService.channels scenario_service)
        (zeroChannel\<lparr>Channel.ID := ''000000000003'', Channel.Owner := ''a'', Channel.Name := ''new''\<rparr>)))
        ''a'' ''000000000003''
     = Inr (zeroChannel\<lparr>Channel.ID := ''000000000003'', Channel.Owner := ''a'', Channel.Name := ''new''\<rparr>)"
  using Save_overwrites [of "thingsService.channels scenario_service"
      "zeroChannel\<lparr>Channel.ID := ''000000000003'', Channel.Owner := ''a'', Channel.Name := ''new''\<rparr>"
      "''a''" "''000000000003''"]
  by (simp add: key_def)

end
